theory Spec2Isabelle
  imports Main
begin

section \<open>Python values used by \<open>src/main.py\<close>\<close>

text \<open>
  Texts are Python \<open>str\<close> values. They are modelled as \<^typ>\<open>string\<close>, a list of
  characters with code points 0..255; \<open>len\<close> is \<^const>\<open>length\<close>. Python integers are
  \<^typ>\<open>int\<close>. An exception is a value of \<open>py_exception\<close>; the handlers turn every
  exception into an \<open>HTTPException\<close> with status code 500 and the exception's text.
\<close>

datatype py_exception = ValueError string

datatype http_exception = HTTPException int string

fun str_exc :: "py_exception \<Rightarrow> string" where
  "str_exc (ValueError msg) = msg"

subsection \<open>\<open>range(start, stop, step)\<close>\<close>

function range_up :: "int \<Rightarrow> int \<Rightarrow> int \<Rightarrow> int list" where
  "range_up i stop step =
     (if 0 < step \<and> i < stop then i # range_up (i + step) stop step else [])"
  by pat_completeness auto
termination
  by (relation "measure (\<lambda>(i, stop, step). nat (stop - i))") auto

function range_down :: "int \<Rightarrow> int \<Rightarrow> int \<Rightarrow> int list" where
  "range_down i stop step =
     (if step < 0 \<and> stop < i then i # range_down (i + step) stop step else [])"
  by pat_completeness auto
termination
  by (relation "measure (\<lambda>(i, stop, step). nat (i - stop))") auto

declare range_up.simps [simp del]
declare range_down.simps [simp del]

definition py_range :: "int \<Rightarrow> int \<Rightarrow> int \<Rightarrow> py_exception + int list" where
  "py_range start stop step =
     (if step = 0 then Inl (ValueError ''range() arg 3 must not be zero'')
      else if 0 < step then Inr (range_up start stop step)
      else Inr (range_down start stop step))"

subsection \<open>Slices \<open>xs[lo:hi]\<close>\<close>

text \<open>A negative bound counts from the end; every bound is clamped to \<open>0..len\<close>.\<close>

definition slice_bound :: "int \<Rightarrow> int \<Rightarrow> nat" where
  "slice_bound n k = (if k < 0 then nat (max 0 (n + k)) else nat (min k n))"

definition py_slice :: "'a list \<Rightarrow> int \<Rightarrow> int \<Rightarrow> 'a list" where
  "py_slice xs lo hi =
     (let n = int (length xs); l = slice_bound n lo; h = slice_bound n hi
      in take (h - l) (drop l xs))"

subsection \<open>\<open>str.strip\<close>, \<open>str.lower\<close> and \<open>in\<close>\<close>

definition isspace :: "char \<Rightarrow> bool" where
  "isspace c = ((of_char c :: nat) \<in> {9, 10, 11, 12, 13, 28, 29, 30, 31, 32, 133, 160})"

definition strip :: "string \<Rightarrow> string" where
  "strip s = rev (dropWhile isspace (rev (dropWhile isspace s)))"

definition lower_char :: "char \<Rightarrow> char" where
  "lower_char c =
     (let n = (of_char c :: nat)
      in if (65 \<le> n \<and> n \<le> 90) \<or> (192 \<le> n \<and> n \<le> 222 \<and> n \<noteq> 215)
         then char_of (n + 32) else c)"

definition lower :: "string \<Rightarrow> string" where
  "lower s = map lower_char s"

fun startswith :: "string \<Rightarrow> string \<Rightarrow> bool" where
  "startswith s [] = True"
| "startswith [] (c # w) = False"
| "startswith (x # s) (c # w) = (x = c \<and> startswith s w)"

text \<open>\<open>py_in w s\<close> is Python's \<open>w in s\<close> on strings: \<open>w\<close> occurs in \<open>s\<close> as a substring.\<close>

fun py_in :: "string \<Rightarrow> string \<Rightarrow> bool" where
  "py_in w [] = (w = [])"
| "py_in w (x # s) = (startswith (x # s) w \<or> py_in w s)"

definition any_in :: "string list \<Rightarrow> string \<Rightarrow> bool" where
  "any_in ws s = list_ex (\<lambda>word. py_in word s) ws"

section \<open>The request and the result of \<open>procesar_pliego\<close>\<close>

record PliegoRequest =
  rfp_content :: string
  rfp_name :: "string option"
  auto_generate :: "bool option"
  chunk_size :: "int option"
  chunk_overlap :: "int option"

record chunk =
  c_id :: int
  c_content :: string
  c_size :: int
  c_start_pos :: int
  c_end_pos :: int

record classification =
  tipo_oferta :: string
  tipo_cliente :: string
  sector :: string
  normativas :: "string list"

record chunks_info =
  ci_total_chunks :: int
  ci_chunk_size :: int
  ci_chunk_overlap :: int
  ci_total_characters :: int

record pliego_result =
  pr_offer_id :: string
  pr_status :: string
  pr_rfp_name :: "string option"
  pr_classification :: classification
  pr_chunks_created :: int
  pr_chunks_info :: chunks_info
  pr_auto_generation_result :: "string list option"

section \<open>Classification by keywords (lines 160 to 188)\<close>

definition cloud_words :: "string list" where
  "cloud_words = [''cloud'', ''azure'', ''aws'', ''nube'', ''saas'', ''paas'', ''iaas'']"

definition seguridad_words :: "string list" where
  "seguridad_words =
     [''seguridad'', ''ciberseguridad'', ''firewall'', ''antivirus'', ''ens'', ''esquema'']"

definition telco_words :: "string list" where
  "telco_words =
     [''telco'', ''telecomunicaciones'', ''5g'', ''fibra'', ''red'', ''conectividad'']"

definition publico_words :: "string list" where
  "publico_words =
     [''administracion'', ''publico'', ''ayuntamiento'', ''ministerio'', ''junta'',
      ''diputacion'']"

definition salud_words :: "string list" where
  "salud_words = [''salud'', ''sanitario'', ''hospital'', ''clinica'']"

definition educacion_words :: "string list" where
  "educacion_words = [''educacion'', ''universidad'', ''colegio'', ''formacion'']"

definition financiero_words :: "string list" where
  "financiero_words = [''financiero'', ''banco'', ''fintech'', ''seguros'']"

definition industrial_words :: "string list" where
  "industrial_words = [''industria'', ''manufacturing'', ''produccion'']"

text \<open>The labels with an accented letter: code point 250 is u-acute, 243 is o-acute.\<close>

definition Publico :: string where
  "Publico = ''P'' @ [char_of (250 :: nat)] @ ''blico''"

definition Educacion :: string where
  "Educacion = ''Educaci'' @ [char_of (243 :: nat)] @ ''n''"

definition classify_tipo_oferta :: "string \<Rightarrow> string" where
  "classify_tipo_oferta content_lower =
     (if any_in cloud_words content_lower then ''Cloud''
      else if any_in seguridad_words content_lower then ''Seguridad''
      else if any_in telco_words content_lower then ''Telco''
      else ''DX'')"

definition classify_tipo_cliente :: "string \<Rightarrow> string" where
  "classify_tipo_cliente content_lower =
     (if any_in publico_words content_lower then Publico else ''Privado'')"

definition classify_sector :: "string \<Rightarrow> string" where
  "classify_sector content_lower =
     (if any_in salud_words content_lower then ''Salud''
      else if any_in educacion_words content_lower then Educacion
      else if any_in financiero_words content_lower then ''Financiero''
      else if any_in industrial_words content_lower then ''Industrial''
      else ''General'')"

definition classify :: "string \<Rightarrow> string \<times> string \<times> string" where
  "classify text =
     (let content_lower = lower text
      in (classify_tipo_oferta content_lower,
          classify_tipo_cliente content_lower,
          classify_sector content_lower))"

section \<open>Chunking (lines 191 to 204)\<close>

text \<open>One pass of the loop body at index \<open>i\<close>, with the chunks collected so far.\<close>

definition chunk_body :: "string \<Rightarrow> int \<Rightarrow> chunk list \<Rightarrow> int \<Rightarrow> chunk list" where
  "chunk_body text window_size chunks i =
     (let chunk_content = py_slice text i (i + window_size)
      in if strip chunk_content \<noteq> []
         then chunks @
           [\<lparr>c_id = int (length chunks) + 1,
             c_content = chunk_content,
             c_size = int (length chunk_content),
             c_start_pos = i,
             c_end_pos = min (i + window_size) (int (length text))\<rparr>]
         else chunks)"

fun chunk_loop :: "string \<Rightarrow> int \<Rightarrow> chunk list \<Rightarrow> int list \<Rightarrow> chunk list" where
  "chunk_loop text window_size chunks [] = chunks"
| "chunk_loop text window_size chunks (i # is) =
     chunk_loop text window_size (chunk_body text window_size chunks i) is"

definition segment :: "string \<Rightarrow> int \<Rightarrow> int \<Rightarrow> py_exception + chunk list" where
  "segment text window_size overlap =
     (case py_range 0 (int (length text)) (window_size - overlap) of
        Inl e \<Rightarrow> Inl e
      | Inr indices \<Rightarrow> Inr (chunk_loop text window_size [] indices))"

section \<open>The handlers\<close>

text \<open>
  What the runtime supplies during one request: the hex digits of the successive
  \<open>uuid.uuid4()\<close> values and the readings of \<open>datetime.datetime.now()\<close>, already
  formatted. What the process keeps between requests is the log and nothing else: the
  module has no other mutable global.
\<close>

record env =
  uuid4_hex :: "nat \<Rightarrow> string"
  now_strftime :: string
  now_isoformat :: "nat \<Rightarrow> string"

datatype log_record =
  Log_procesar_pliego
| Log_pliego_procesado string
| Log_error_procesando string
| Log_obtener_estado string
| Log_listar_ofertas int int

text \<open>\<open>v or d\<close> for an optional integer: \<open>None\<close> and \<open>0\<close> are falsy.\<close>

definition or_default :: "int option \<Rightarrow> int \<Rightarrow> int" where
  "or_default v d = (case v of None \<Rightarrow> d | Some n \<Rightarrow> if n = 0 then d else n)"

definition offer_sections :: "string list" where
  "offer_sections =
     [''Resumen ejecutivo'',
      ''An'' @ [char_of (225 :: nat)] @ ''lisis de requisitos'',
      ''Propuesta t'' @ [char_of (233 :: nat)] @ ''cnica'',
      ''Metodolog'' @ [char_of (237 :: nat)] @ ''a'',
      ''Equipo y recursos'',
      ''Cronograma'',
      ''Presupuesto'']"

definition procesar_pliego ::
  "env \<Rightarrow> PliegoRequest \<Rightarrow> log_record list \<Rightarrow>
   (http_exception + pliego_result) \<times> log_record list" where
  "procesar_pliego e request log =
     (let log1 = log @ [Log_procesar_pliego];
          offer_id = ''OFF-'' @ take 8 (uuid4_hex e 0) @ ''-'' @ now_strftime e;
          (t_oferta, t_cliente, sec) = classify (rfp_content request);
          window_size = or_default (chunk_size request) 2000;
          overlap = or_default (chunk_overlap request) 200
      in case segment (rfp_content request) window_size overlap of
           Inl exc \<Rightarrow>
             (Inl (HTTPException 500 (str_exc exc)),
              log1 @ [Log_error_procesando (str_exc exc)])
         | Inr chunks \<Rightarrow>
             (Inr \<lparr>pr_offer_id = offer_id,
                   pr_status = ''success'',
                   pr_rfp_name = rfp_name request,
                   pr_classification =
                     \<lparr>tipo_oferta = t_oferta,
                      tipo_cliente = t_cliente,
                      sector = sec,
                      normativas =
                        (if t_cliente = Publico then [''RGPD'', ''ENS''] else [''RGPD''])\<rparr>,
                   pr_chunks_created = int (length chunks),
                   pr_chunks_info =
                     \<lparr>ci_total_chunks = int (length chunks),
                      ci_chunk_size = window_size,
                      ci_chunk_overlap = overlap,
                      ci_total_characters = int (length (rfp_content request))\<rparr>,
                   pr_auto_generation_result =
                     (if auto_generate request = Some True then Some offer_sections
                      else None)\<rparr>,
              log1 @ [Log_pliego_procesado offer_id]))"

record estado_result =
  er_offer_id :: string
  er_status :: string
  er_tipo_oferta :: string
  er_tipo_cliente :: string
  er_sector :: string
  er_processing_date :: string
  er_total_chunks :: int
  er_chunks_saved :: bool
  er_final_offer_available :: bool

definition obtener_estado_oferta ::
  "env \<Rightarrow> string \<Rightarrow> log_record list \<Rightarrow>
   (http_exception + estado_result) \<times> log_record list" where
  "obtener_estado_oferta e offer_id log =
     (Inr \<lparr>er_offer_id = offer_id,
           er_status = ''completed'',
           er_tipo_oferta = ''DX'',
           er_tipo_cliente = Publico,
           er_sector = ''General'',
           er_processing_date = now_isoformat e 0,
           er_total_chunks = 5,
           er_chunks_saved = True,
           er_final_offer_available = True\<rparr>,
      log @ [Log_obtener_estado offer_id])"

record oferta =
  o_offer_id :: string
  o_rfp_name :: string
  o_status :: string
  o_tipo_oferta :: string
  o_tipo_cliente :: string
  o_created_date :: string

record pagination =
  p_limit :: int
  p_offset :: int
  p_has_more :: bool

record listar_result =
  lr_status :: string
  lr_offers :: "oferta list"
  lr_total_offers :: int
  lr_pagination :: pagination

definition ofertas_ejemplo :: "env \<Rightarrow> oferta list" where
  "ofertas_ejemplo e =
     [\<lparr>o_offer_id = ''OFF-'' @ take 8 (uuid4_hex e 0) @ ''-202412151200'',
       o_rfp_name = ''Pliego_Transformacion_Digital.pdf'',
       o_status = ''completed'',
       o_tipo_oferta = ''DX'',
       o_tipo_cliente = Publico,
       o_created_date = now_isoformat e 0\<rparr>,
      \<lparr>o_offer_id = ''OFF-'' @ take 8 (uuid4_hex e 1) @ ''-202412141500'',
       o_rfp_name = ''Pliego_Cloud_Migration.pdf'',
       o_status = ''processed'',
       o_tipo_oferta = ''Cloud'',
       o_tipo_cliente = ''Privado'',
       o_created_date = now_isoformat e 1\<rparr>]"

definition listar_ofertas ::
  "env \<Rightarrow> int \<Rightarrow> int \<Rightarrow> log_record list \<Rightarrow>
   (http_exception + listar_result) \<times> log_record list" where
  "listar_ofertas e limit offset log =
     (Inr \<lparr>lr_status = ''success'',
           lr_offers = py_slice (ofertas_ejemplo e) offset (offset + limit),
           lr_total_offers = int (length (ofertas_ejemplo e)),
           lr_pagination =
             \<lparr>p_limit = limit,
              p_offset = offset,
              p_has_more = (offset + limit < int (length (ofertas_ejemplo e)))\<rparr>\<rparr>,
      log @ [Log_listar_ofertas limit offset])"

text \<open>The log after a sequence of \<open>procesarPliego\<close> calls, each with its own environment.\<close>

fun run_pliegos :: "(env \<times> PliegoRequest) list \<Rightarrow> log_record list \<Rightarrow> log_record list" where
  "run_pliegos [] log = log"
| "run_pliegos ((e, request) # calls) log =
     run_pliegos calls (snd (procesar_pliego e request log))"

section \<open>Properties stated by the specification\<close>

text \<open>
  The offset ranges of the windows leave no position of \<open>[0, n)\<close> uncovered.
\<close>

definition covers :: "chunk list \<Rightarrow> int \<Rightarrow> bool" where
  "covers chunks n =
     list_all (\<lambda>p. list_ex (\<lambda>c. c_start_pos c \<le> p \<and> p < c_end_pos c) chunks) [0..n - 1]"

text \<open>
  Every window but the last shares exactly \<open>overlap\<close> positions with its successor.
\<close>

fun overlaps_exactly :: "chunk list \<Rightarrow> int \<Rightarrow> bool" where
  "overlaps_exactly (c # d # cs) overlap =
     (c_end_pos c - c_start_pos d = overlap \<and> overlaps_exactly (d # cs) overlap)"
| "overlaps_exactly cs overlap = True"

text \<open>
  The third of the specification's segmentation properties, as it is worded: no gaps, and
  every pair of consecutive windows, the final window apart, overlaps by exactly
  \<open>overlap\<close>.
\<close>

definition gap_free_exact_overlap :: "string \<Rightarrow> int \<Rightarrow> int \<Rightarrow> bool" where
  "gap_free_exact_overlap text window_size overlap =
     (case segment text window_size overlap of
        Inl e \<Rightarrow> False
      | Inr chunks \<Rightarrow>
          covers chunks (int (length text)) \<and> overlaps_exactly (butlast chunks) overlap)"

text \<open>
  What the fixed stride gives instead: consecutive windows start one stride apart, and a
  window shares with its successor \<open>overlap\<close> positions, or what is left of the text
  when that is less.
\<close>

fun overlaps_stride :: "chunk list \<Rightarrow> int \<Rightarrow> int \<Rightarrow> int \<Rightarrow> bool" where
  "overlaps_stride (c # d # cs) window_size overlap n =
     (c_start_pos d = c_start_pos c + (window_size - overlap) \<and>
      c_end_pos c - c_start_pos d = min overlap (n - c_start_pos d) \<and>
      overlaps_stride (d # cs) window_size overlap n)"
| "overlaps_stride cs window_size overlap n = True"

text \<open>No slice taken by the loop is empty or whitespace only, so none is skipped.\<close>

definition no_blank_slice :: "string \<Rightarrow> int \<Rightarrow> int \<Rightarrow> bool" where
  "no_blank_slice text window_size overlap =
     list_all (\<lambda>i. strip (py_slice text i (i + window_size)) \<noteq> [])
       (range_up 0 (int (length text)) (window_size - overlap))"

text \<open>A window as the loop body builds it: the slice at its start offset.\<close>

definition well_formed :: "string \<Rightarrow> int \<Rightarrow> chunk \<Rightarrow> bool" where
  "well_formed text window_size c =
     (c_content c = py_slice text (c_start_pos c) (c_start_pos c + window_size) \<and>
      c_size c = int (length (c_content c)) \<and>
      c_end_pos c = min (c_start_pos c + window_size) (int (length text)))"

text \<open>An environment and a request used in the examples.\<close>

definition env0 :: env where
  "env0 = \<lparr>uuid4_hex = (\<lambda>k. ''0123456789abcdef0123456789abcdef''),
            now_strftime = ''202611041200'',
            now_isoformat = (\<lambda>k. ''2026-11-04T12:00:00'')\<rparr>"

definition request0 :: "int option \<Rightarrow> int option \<Rightarrow> PliegoRequest" where
  "request0 size_sent overlap_sent =
     \<lparr>rfp_content = ''hola mundo'', rfp_name = Some ''pliego.pdf'',
      auto_generate = Some True, chunk_size = size_sent, chunk_overlap = overlap_sent\<rparr>"

section \<open>Facts about the Python primitives\<close>

lemma strip_Nil_iff: "strip s = [] \<longleftrightarrow> (\<forall>c\<in>set s. isspace c)"
proof
  assume "strip s = []"
  then have a: "\<forall>c\<in>set (dropWhile isspace s). isspace c"
    by (simp add: strip_def)
  show "\<forall>c\<in>set s. isspace c"
  proof (cases "dropWhile isspace s")
    case Nil
    then show ?thesis by simp
  next
    case (Cons x xs)
    then have "\<not> isspace x" using hd_dropWhile [of isspace s] by simp
    moreover have "x \<in> set (dropWhile isspace s)" using Cons by simp
    ultimately show ?thesis using a by blast
  qed
next
  assume "\<forall>c\<in>set s. isspace c"
  then show "strip s = []" by (auto simp: strip_def dest: set_dropWhileD)
qed

lemma range_up_Nil: "\<not> (0 < step \<and> i < stop) \<Longrightarrow> range_up i stop step = []"
  by (subst range_up.simps) simp

lemma range_up_Cons:
  "0 < step \<Longrightarrow> i < stop \<Longrightarrow> range_up i stop step = i # range_up (i + step) stop step"
  by (subst range_up.simps) simp

lemma range_down_Nil: "\<not> (step < 0 \<and> stop < i) \<Longrightarrow> range_down i stop step = []"
  by (subst range_down.simps) simp

lemma range_up_bounds:
  "x \<in> set (range_up i stop step) \<Longrightarrow> i \<le> x \<and> x < stop"
proof (induction i stop step rule: range_up.induct)
  case (1 i stop step)
  show ?case
  proof (cases "0 < step \<and> i < stop")
    case True
    then have "x = i \<or> x \<in> set (range_up (i + step) stop step)"
      using "1.prems" by (simp add: range_up_Cons)
    then show ?thesis using "1.IH" True by auto
  next
    case False
    then show ?thesis using "1.prems" by (simp add: range_up_Nil)
  qed
qed

lemma range_up_strict: "sorted_wrt (<) (range_up i stop step)"
proof (induction i stop step rule: range_up.induct)
  case (1 i stop step)
  show ?case
  proof (cases "0 < step \<and> i < stop")
    case True
    have "\<forall>x\<in>set (range_up (i + step) stop step). i < x"
      using range_up_bounds [of _ "i + step" stop step] True by fastforce
    then show ?thesis using "1.IH" True by (simp add: range_up_Cons)
  next
    case False
    then show ?thesis by (simp add: range_up_Nil)
  qed
qed

lemma range_up_covers:
  "0 < step \<Longrightarrow> i \<le> p \<Longrightarrow> p < stop \<Longrightarrow>
   \<exists>x\<in>set (range_up i stop step). x \<le> p \<and> p < x + step"
proof (induction i stop step rule: range_up.induct)
  case (1 i stop step)
  then have lt: "i < stop" by simp
  show ?case
  proof (cases "p < i + step")
    case True
    then show ?thesis using "1.prems" lt by (auto simp: range_up_Cons)
  next
    case False
    then have "\<exists>x\<in>set (range_up (i + step) stop step). x \<le> p \<and> p < x + step"
      using "1.IH" "1.prems" lt by simp
    then show ?thesis using "1.prems" lt by (auto simp: range_up_Cons)
  qed
qed

lemma range_up_eq_Cons:
  assumes "range_up i stop step = x # xs"
  shows "x = i \<and> xs = range_up (i + step) stop step \<and> 0 < step \<and> i < stop"
proof (cases "0 < step \<and> i < stop")
  case True
  then show ?thesis using assms by (auto simp: range_up_Cons)
next
  case False
  then show ?thesis using assms by (simp add: range_up_Nil)
qed

lemma py_slice_nonneg:
  "0 \<le> lo \<Longrightarrow> lo \<le> hi \<Longrightarrow> py_slice xs lo hi = take (nat (hi - lo)) (drop (nat lo) xs)"
  by (auto simp: py_slice_def slice_bound_def Let_def min_def nat_diff_distrib)

section \<open>Facts about the chunking loop\<close>

lemma chunk_loop_starts:
  "map c_start_pos (chunk_loop text w chunks is) =
   map c_start_pos chunks @ filter (\<lambda>i. strip (py_slice text i (i + w)) \<noteq> []) is"
  by (induction "is" arbitrary: chunks) (simp_all add: chunk_body_def Let_def)

lemma chunk_loop_ids:
  "map c_id chunks = map (\<lambda>k. int k + 1) [0..<length chunks] \<Longrightarrow>
   map c_id (chunk_loop text w chunks is) =
   map (\<lambda>k. int k + 1) [0..<length (chunk_loop text w chunks is)]"
proof (induction "is" arbitrary: chunks)
  case Nil
  then show ?case by simp
next
  case (Cons i "is")
  have "map c_id (chunk_body text w chunks i) =
        map (\<lambda>k. int k + 1) [0..<length (chunk_body text w chunks i)]"
    using Cons.prems by (simp add: chunk_body_def Let_def)
  then show ?case using Cons.IH by simp
qed

lemma ids_upto: "map (\<lambda>k. int k + 1) [0..<n] = [1..int n]"
proof (induction n)
  case 0
  then show ?case by simp
next
  case (Suc n)
  have "[1..int (Suc n)] = [1..int n] @ [int n + 1]"
    using upto_rec2 [of 1 "int (Suc n)"] by (simp add: add.commute)
  then show ?case using Suc by simp
qed

lemma chunk_body_shape:
  "list_all (well_formed text w) chunks \<Longrightarrow>
   list_all (well_formed text w) (chunk_body text w chunks i)"
  by (simp add: chunk_body_def Let_def well_formed_def)

lemma chunk_loop_shape:
  "list_all (well_formed text w) chunks \<Longrightarrow>
   list_all (well_formed text w) (chunk_loop text w chunks is)"
proof (induction "is" arbitrary: chunks)
  case Nil
  then show ?case by simp
next
  case (Cons i "is")
  then show ?case using chunk_body_shape [of "text" w chunks i] by simp
qed

lemma segment_valid:
  "overlap < window_size \<Longrightarrow>
   segment text window_size overlap =
     Inr (chunk_loop text window_size []
            (range_up 0 (int (length text)) (window_size - overlap)))"
  by (simp add: segment_def py_range_def)

lemma segment_zero_stride:
  "segment text w w = Inl (ValueError ''range() arg 3 must not be zero'')"
  by (simp add: segment_def py_range_def)

lemma segment_negative_stride: "w < ov \<Longrightarrow> segment text w ov = Inr []"
  by (simp add: segment_def py_range_def range_down_Nil)

lemma segment_empty: "w \<noteq> ov \<Longrightarrow> segment [] w ov = Inr []"
  by (simp add: segment_def py_range_def range_down_Nil range_up_Nil)

lemma covers_iff:
  "covers chunks n \<longleftrightarrow>
   (\<forall>p. 0 \<le> p \<and> p < n \<longrightarrow> (\<exists>c\<in>set chunks. c_start_pos c \<le> p \<and> p < c_end_pos c))"
  by (auto simp: covers_def list_all_iff list_ex_iff)

lemma overlaps_stride_range:
  "map c_start_pos cs = range_up i n (w - ov) \<Longrightarrow>
   \<forall>c\<in>set cs. c_end_pos c = min (c_start_pos c + w) n \<Longrightarrow>
   overlaps_stride cs w ov n"
proof (induction cs w ov n arbitrary: i rule: overlaps_stride.induct)
  case (1 c d cs w ov n)
  from "1.prems"(1) have a: "c_start_pos c = i"
    and b: "map c_start_pos (d # cs) = range_up (i + (w - ov)) n (w - ov)"
    using range_up_eq_Cons [of i n "w - ov" "c_start_pos c" "map c_start_pos (d # cs)"]
    by simp_all
  from b have d: "c_start_pos d = i + (w - ov)" and lt: "i + (w - ov) < n"
    using range_up_eq_Cons [of "i + (w - ov)" n "w - ov" "c_start_pos d" "map c_start_pos cs"]
    by simp_all
  have "overlaps_stride (d # cs) w ov n"
    using "1.IH" [OF b] "1.prems"(2) by simp
  moreover have "c_end_pos c = min (i + w) n" using "1.prems"(2) a by simp
  ultimately show ?case using a d lt by (simp add: min_def)
qed simp_all

lemma procesar_pliego_zero_stride:
  assumes "or_default (chunk_size r) 2000 = or_default (chunk_overlap r) 200"
  shows "fst (procesar_pliego e r log) =
     Inl (HTTPException 500 ''range() arg 3 must not be zero'')"
proof -
  have "segment (rfp_content r) (or_default (chunk_size r) 2000)
          (or_default (chunk_overlap r) 200) =
        Inl (ValueError ''range() arg 3 must not be zero'')"
    using assms segment_zero_stride [of "rfp_content r" "or_default (chunk_overlap r) 200"]
    by simp
  then show ?thesis
    unfolding procesar_pliego_def Let_def case_prod_beta by simp
qed

section \<open>Substrings and the handler's result\<close>

lemma startswith_iff: "startswith s w \<longleftrightarrow> (\<exists>q. s = w @ q)"
  by (induction s w rule: startswith.induct) auto

lemma py_in_iff: "py_in w s \<longleftrightarrow> (\<exists>p q. s = p @ w @ q)"
proof (induction s)
  case Nil
  then show ?case by auto
next
  case (Cons x s)
  show ?case
  proof
    assume "py_in w (x # s)"
    then consider "startswith (x # s) w" | "py_in w s" by auto
    then show "\<exists>p q. x # s = p @ w @ q"
    proof cases
      case 1
      then obtain q where "x # s = w @ q" using startswith_iff by blast
      then have "x # s = [] @ w @ q" by simp
      then show ?thesis by blast
    next
      case 2
      then obtain p q where "s = p @ w @ q" using Cons.IH by blast
      then have "x # s = (x # p) @ w @ q" by simp
      then show ?thesis by blast
    qed
  next
    assume "\<exists>p q. x # s = p @ w @ q"
    then obtain p q where pq: "x # s = p @ w @ q" by blast
    show "py_in w (x # s)"
    proof (cases p)
      case Nil
      then have "startswith (x # s) w" using pq startswith_iff by auto
      then show ?thesis by simp
    next
      case (Cons y p')
      then have "s = p' @ w @ q" using pq by simp
      then have "py_in w s" using Cons.IH by blast
      then show ?thesis by simp
    qed
  qed
qed

lemma any_in_iff: "any_in ws s \<longleftrightarrow> (\<exists>w\<in>set ws. \<exists>p q. s = p @ w @ q)"
  by (simp add: any_in_def list_ex_iff py_in_iff)

lemma segment_nonzero_stride:
  "w \<noteq> ov \<Longrightarrow> \<exists>chunks. segment text w ov = Inr chunks"
  by (simp add: segment_def py_range_def)

lemma procesar_pliego_result:
  assumes "segment (rfp_content r) (or_default (chunk_size r) 2000)
             (or_default (chunk_overlap r) 200) = Inr chunks"
  shows "\<exists>res. fst (procesar_pliego e r log) = Inr res \<and>
     pr_chunks_created res = int (length chunks) \<and>
     ci_chunk_size (pr_chunks_info res) = or_default (chunk_size r) 2000 \<and>
     ci_chunk_overlap (pr_chunks_info res) = or_default (chunk_overlap r) 200 \<and>
     tipo_oferta (pr_classification res) = fst (classify (rfp_content r)) \<and>
     tipo_cliente (pr_classification res) = fst (snd (classify (rfp_content r))) \<and>
     sector (pr_classification res) = snd (snd (classify (rfp_content r)))"
  using assms unfolding procesar_pliego_def Let_def case_prod_beta by simp

section \<open>The claims\<close>

subsection \<open>Empty text\<close>

text \<open>
  C7. Segmenting the empty text with window size 2000 and overlap 200 returns zero
  windows, and so does every configuration whose stride \<open>window_size - overlap\<close> is not
  zero: the result is the empty list and no exception is raised. (The one configuration
  left out, stride zero, is the one that \<open>range\<close> refuses for every text.)
\<close>

theorem segment_empty_text:
  "segment [] 2000 200 = Inr [] \<and>
   (window_size \<noteq> overlap \<longrightarrow> segment [] window_size overlap = Inr [])"
  using segment_empty [of 2000 200] segment_empty [of window_size overlap] by simp

theorem segment_empty_text_witness:
  "(10 :: int) \<noteq> 5 \<and> segment [] 2000 200 = Inr [] \<and> segment [] 10 5 = Inr []"
  using segment_empty_text [of 10 5] by simp

subsection \<open>Strides that are not positive\<close>

text \<open>
  C2, as amended. For every text, an overlap equal to the window size is rejected: the
  \<open>range\<close> call raises \<open>ValueError\<close>, which the handler turns into an HTTP 500 with that
  message; nothing loops and nothing succeeds silently. This holds for the values after
  defaulting, so a request with \<open>chunk_size = 200\<close> and \<open>chunk_overlap = 0\<close> is rejected
  too. An overlap greater than the window size is not rejected: the range is empty and
  the result is zero windows.
\<close>

theorem zero_stride_rejected:
  "segment text window_size window_size =
     Inl (ValueError ''range() arg 3 must not be zero'') \<and>
   (or_default (chunk_size r) 2000 = or_default (chunk_overlap r) 200 \<longrightarrow>
    fst (procesar_pliego e r log) =
      Inl (HTTPException 500 ''range() arg 3 must not be zero'')) \<and>
   (window_size < overlap \<longrightarrow> segment text window_size overlap = Inr [])"
  using segment_zero_stride [of "text" window_size]
    procesar_pliego_zero_stride [of r e log]
    segment_negative_stride [of window_size overlap "text"]
  by simp

theorem zero_stride_rejected_witness:
  "segment ''hola mundo'' 10 10 = Inl (ValueError ''range() arg 3 must not be zero'') \<and>
   fst (procesar_pliego env0 (request0 (Some 200) (Some 0)) []) =
      Inl (HTTPException 500 ''range() arg 3 must not be zero'') \<and>
   segment ''hola mundo'' 10 20 = Inr []"
  using zero_stride_rejected [of "''hola mundo''" 10 "request0 (Some 200) (Some 0)" env0 "[]" 20]
  by (simp add: or_default_def request0_def)

text \<open>
  The claim as worded fails where the overlap exceeds the window size: window size 10
  and overlap 20 give a successful result with no windows.
\<close>

theorem negative_stride_accepted_counterexample:
  "segment ''hola mundo'' 10 20 = Inr []"
  by (simp add: segment_negative_stride)

subsection \<open>Listing the example offers\<close>

text \<open>
  C8. \<open>listar_ofertas\<close> with limit 1 and offset 0 returns exactly one offer record (the
  first of the two examples), reports \<open>total_offers = 2\<close> and sets \<open>has_more\<close> to true,
  whatever the environment and the log.
\<close>

theorem listar_ofertas_first_page:
  "\<exists>res. fst (listar_ofertas e 1 0 log) = Inr res \<and>
     lr_offers res = [hd (ofertas_ejemplo e)] \<and>
     length (lr_offers res) = 1 \<and>
     lr_total_offers res = 2 \<and>
     p_has_more (lr_pagination res)"
  by (simp add: listar_ofertas_def ofertas_ejemplo_def py_slice_def slice_bound_def)

subsection \<open>No state across requests\<close>

text \<open>
  C9. The responses of \<open>obtener_estado_oferta\<close> and \<open>listar_ofertas\<close> do not depend on
  earlier \<open>procesar_pliego\<close> calls: after any two histories of such calls, started from
  any two logs, the same request in the same environment gets the same response, and the
  status response always carries the static classification (DX, Publico, General) and
  five chunks, whatever the offer identifier.
\<close>

theorem lookups_independent_of_history:
  "fst (obtener_estado_oferta e offer_id (run_pliegos calls1 log1)) =
   fst (obtener_estado_oferta e offer_id (run_pliegos calls2 log2)) \<and>
   fst (listar_ofertas e limit offset (run_pliegos calls1 log1)) =
   fst (listar_ofertas e limit offset (run_pliegos calls2 log2)) \<and>
   (\<exists>res. fst (obtener_estado_oferta e offer_id (run_pliegos calls1 log1)) = Inr res \<and>
      er_offer_id res = offer_id \<and> er_tipo_oferta res = ''DX'' \<and>
      er_tipo_cliente res = Publico \<and> er_sector res = ''General'' \<and>
      er_total_chunks res = 5)"
  by (simp add: obtener_estado_oferta_def listar_ofertas_def)

subsection \<open>Defaults of the chunk parameters\<close>

text \<open>
  C10. A \<open>chunk_size\<close> or \<open>chunk_overlap\<close> sent as 0 (or as null) is replaced by the
  default 2000 or 200, so the overlap in effect is never 0; whenever the handler returns
  a result, the \<open>chunk_size\<close> and \<open>chunk_overlap\<close> of its \<open>chunks_info\<close> are these
  defaulted values; and it returns a result whenever the two defaulted values differ.
\<close>

theorem chunk_defaults_echoed:
  "or_default (Some 0) 2000 = 2000 \<and> or_default (Some 0) 200 = 200 \<and>
   or_default None 2000 = 2000 \<and> or_default None 200 = 200 \<and>
   or_default (chunk_overlap r) 200 \<noteq> 0 \<and>
   (fst (procesar_pliego e r log) = Inr res \<longrightarrow>
      ci_chunk_size (pr_chunks_info res) = or_default (chunk_size r) 2000 \<and>
      ci_chunk_overlap (pr_chunks_info res) = or_default (chunk_overlap r) 200 \<and>
      ci_chunk_overlap (pr_chunks_info res) \<noteq> 0) \<and>
   (or_default (chunk_size r) 2000 \<noteq> or_default (chunk_overlap r) 200 \<longrightarrow>
      (\<exists>res'. fst (procesar_pliego e r log) = Inr res'))"
proof -
  have nz: "or_default (chunk_overlap r) 200 \<noteq> 0"
    by (simp add: or_default_def split: option.splits)
  have echo: "ci_chunk_size (pr_chunks_info res) = or_default (chunk_size r) 2000 \<and>
      ci_chunk_overlap (pr_chunks_info res) = or_default (chunk_overlap r) 200"
    if ok: "fst (procesar_pliego e r log) = Inr res"
  proof (cases "or_default (chunk_size r) 2000 = or_default (chunk_overlap r) 200")
    case True
    then show ?thesis using procesar_pliego_zero_stride [of r e log] ok by simp
  next
    case False
    then obtain chunks where "segment (rfp_content r) (or_default (chunk_size r) 2000)
        (or_default (chunk_overlap r) 200) = Inr chunks"
      using segment_nonzero_stride by blast
    then show ?thesis using procesar_pliego_result [of r chunks e log] ok by auto
  qed
  have total: "\<exists>res'. fst (procesar_pliego e r log) = Inr res'"
    if ne: "or_default (chunk_size r) 2000 \<noteq> or_default (chunk_overlap r) 200"
  proof -
    obtain chunks where "segment (rfp_content r) (or_default (chunk_size r) 2000)
        (or_default (chunk_overlap r) 200) = Inr chunks"
      using ne segment_nonzero_stride by blast
    then show ?thesis using procesar_pliego_result [of r chunks e log] by blast
  qed
  show ?thesis using nz echo total by (simp add: or_default_def)
qed

theorem chunk_defaults_echoed_witness:
  "\<exists>res. fst (procesar_pliego env0 (request0 (Some 0) (Some 0)) []) = Inr res \<and>
     ci_chunk_size (pr_chunks_info res) = 2000 \<and>
     ci_chunk_overlap (pr_chunks_info res) = 200"
proof -
  have ne: "or_default (chunk_size (request0 (Some 0) (Some 0))) 2000 \<noteq>
            or_default (chunk_overlap (request0 (Some 0) (Some 0))) 200"
    by (simp add: or_default_def request0_def)
  then obtain res where
    ok: "fst (procesar_pliego env0 (request0 (Some 0) (Some 0)) []) = Inr res"
    using chunk_defaults_echoed [of "request0 (Some 0) (Some 0)" env0 "[]"] by blast
  then have "ci_chunk_size (pr_chunks_info res) = 2000 \<and>
      ci_chunk_overlap (pr_chunks_info res) = 200"
    using chunk_defaults_echoed [of "request0 (Some 0) (Some 0)" env0 "[]" res]
    by (simp add: or_default_def request0_def)
  then show ?thesis using ok by blast
qed

subsection \<open>Keyword priority\<close>

text \<open>
  C4. A text whose lower-cased form contains a Cloud keyword and a Security keyword is
  classified as Cloud; more generally the offer type is that of the first group, in the
  order Cloud, Seguridad, Telco, that has a keyword in the text, and DX when none has.
\<close>

theorem cloud_wins:
  "(any_in cloud_words (lower text) \<and> any_in seguridad_words (lower text) \<longrightarrow>
      fst (classify text) = ''Cloud'') \<and>
   (any_in cloud_words (lower text) \<longrightarrow> fst (classify text) = ''Cloud'') \<and>
   (\<not> any_in cloud_words (lower text) \<and> any_in seguridad_words (lower text) \<longrightarrow>
      fst (classify text) = ''Seguridad'') \<and>
   (\<not> any_in cloud_words (lower text) \<and> \<not> any_in seguridad_words (lower text) \<and>
    any_in telco_words (lower text) \<longrightarrow> fst (classify text) = ''Telco'') \<and>
   (\<not> any_in cloud_words (lower text) \<and> \<not> any_in seguridad_words (lower text) \<and>
    \<not> any_in telco_words (lower text) \<longrightarrow> fst (classify text) = ''DX'')"
  by (simp add: classify_def classify_tipo_oferta_def Let_def)

theorem cloud_wins_witness:
  "any_in cloud_words (lower ''Migracion a la NUBE con Firewall'') \<and>
   any_in seguridad_words (lower ''Migracion a la NUBE con Firewall'') \<and>
   fst (classify ''Migracion a la NUBE con Firewall'') = ''Cloud''"
proof -
  have a: "any_in cloud_words (lower ''Migracion a la NUBE con Firewall'')" by code_simp
  have b: "any_in seguridad_words (lower ''Migracion a la NUBE con Firewall'')" by code_simp
  show ?thesis using a b cloud_wins [of "''Migracion a la NUBE con Firewall''"] by blast
qed

subsection \<open>Labels of the classification\<close>

text \<open>
  C5. For every text, \<open>classify\<close> returns one label on each axis and never fails; the
  offer type is one of Cloud, Seguridad, Telco, DX, the client type one of \<open>Publico\<close>
  (written with u-acute), Privado, the sector one of Salud, \<open>Educacion\<close> (written with
  o-acute), Financiero, Industrial, General; an axis none of whose keyword groups matches gets
  its default DX, Privado or General; and every result of the handler carries exactly
  these three labels.
\<close>

theorem classify_labels:
  "fst (classify text) \<in> {''Cloud'', ''Seguridad'', ''Telco'', ''DX''} \<and>
   fst (snd (classify text)) \<in> {Publico, ''Privado''} \<and>
   snd (snd (classify text)) \<in> {''Salud'', Educacion, ''Financiero'', ''Industrial'', ''General''} \<and>
   (\<not> any_in cloud_words (lower text) \<and> \<not> any_in seguridad_words (lower text) \<and>
    \<not> any_in telco_words (lower text) \<longrightarrow> fst (classify text) = ''DX'') \<and>
   (\<not> any_in publico_words (lower text) \<longrightarrow> fst (snd (classify text)) = ''Privado'') \<and>
   (\<not> any_in salud_words (lower text) \<and> \<not> any_in educacion_words (lower text) \<and>
    \<not> any_in financiero_words (lower text) \<and> \<not> any_in industrial_words (lower text) \<longrightarrow>
      snd (snd (classify text)) = ''General'') \<and>
   (fst (procesar_pliego e r log) = Inr res \<longrightarrow>
      (tipo_oferta (pr_classification res), tipo_cliente (pr_classification res),
       sector (pr_classification res)) = classify (rfp_content r))"
proof -
  have labels: "(tipo_oferta (pr_classification res), tipo_cliente (pr_classification res),
       sector (pr_classification res)) = classify (rfp_content r)"
    if ok: "fst (procesar_pliego e r log) = Inr res"
  proof (cases "or_default (chunk_size r) 2000 = or_default (chunk_overlap r) 200")
    case True
    then show ?thesis using procesar_pliego_zero_stride [of r e log] ok by simp
  next
    case False
    then obtain chunks where "segment (rfp_content r) (or_default (chunk_size r) 2000)
        (or_default (chunk_overlap r) 200) = Inr chunks"
      using segment_nonzero_stride by blast
    then show ?thesis
      using procesar_pliego_result [of r chunks e log] ok by (auto simp: prod_eq_iff)
  qed
  have a: "fst (classify text) \<in> {''Cloud'', ''Seguridad'', ''Telco'', ''DX''}"
    by (simp add: classify_def classify_tipo_oferta_def Let_def)
  have b: "fst (snd (classify text)) \<in> {Publico, ''Privado''}"
    by (simp add: classify_def classify_tipo_cliente_def Let_def)
  have c: "snd (snd (classify text)) \<in>
      {''Salud'', Educacion, ''Financiero'', ''Industrial'', ''General''}"
    by (simp add: classify_def classify_sector_def Let_def)
  have d: "\<not> any_in cloud_words (lower text) \<and> \<not> any_in seguridad_words (lower text) \<and>
    \<not> any_in telco_words (lower text) \<longrightarrow> fst (classify text) = ''DX''"
    by (simp add: classify_def classify_tipo_oferta_def Let_def)
  have e: "\<not> any_in publico_words (lower text) \<longrightarrow> fst (snd (classify text)) = ''Privado''"
    by (simp add: classify_def classify_tipo_cliente_def Let_def)
  have f: "\<not> any_in salud_words (lower text) \<and> \<not> any_in educacion_words (lower text) \<and>
    \<not> any_in financiero_words (lower text) \<and> \<not> any_in industrial_words (lower text) \<longrightarrow>
      snd (snd (classify text)) = ''General''"
    by (simp add: classify_def classify_sector_def Let_def)
  show ?thesis using a b c d e f labels by blast
qed

theorem classify_labels_witness:
  "classify ''Hola Mundo'' = (''DX'', ''Privado'', ''General'') \<and>
   (\<exists>res. fst (procesar_pliego env0 (request0 None None) []) = Inr res \<and>
      tipo_oferta (pr_classification res) = ''DX'' \<and>
      tipo_cliente (pr_classification res) = ''Privado'' \<and>
      sector (pr_classification res) = ''General'')"
proof -
  have n: "\<not> any_in cloud_words (lower ''Hola Mundo'')"
    "\<not> any_in seguridad_words (lower ''Hola Mundo'')"
    "\<not> any_in telco_words (lower ''Hola Mundo'')"
    "\<not> any_in publico_words (lower ''Hola Mundo'')"
    "\<not> any_in salud_words (lower ''Hola Mundo'')"
    "\<not> any_in educacion_words (lower ''Hola Mundo'')"
    "\<not> any_in financiero_words (lower ''Hola Mundo'')"
    "\<not> any_in industrial_words (lower ''Hola Mundo'')"
    by code_simp+
  have first: "classify ''Hola Mundo'' = (''DX'', ''Privado'', ''General'')"
    using n classify_labels [of "''Hola Mundo''"] by (simp add: prod_eq_iff)
  have m: "\<not> any_in cloud_words (lower ''hola mundo'')"
    "\<not> any_in seguridad_words (lower ''hola mundo'')"
    "\<not> any_in telco_words (lower ''hola mundo'')"
    "\<not> any_in publico_words (lower ''hola mundo'')"
    "\<not> any_in salud_words (lower ''hola mundo'')"
    "\<not> any_in educacion_words (lower ''hola mundo'')"
    "\<not> any_in financiero_words (lower ''hola mundo'')"
    "\<not> any_in industrial_words (lower ''hola mundo'')"
    by code_simp+
  have cl: "classify ''hola mundo'' = (''DX'', ''Privado'', ''General'')"
    using m classify_labels [of "''hola mundo''"] by (simp add: prod_eq_iff)
  obtain chunks where "segment (rfp_content (request0 None None))
      (or_default (chunk_size (request0 None None)) 2000)
      (or_default (chunk_overlap (request0 None None)) 200) = Inr chunks"
    using segment_nonzero_stride [of 2000 200 "''hola mundo''"]
    by (auto simp: request0_def or_default_def)
  then obtain res where
    ok: "fst (procesar_pliego env0 (request0 None None) []) = Inr res"
    using procesar_pliego_result [of "request0 None None" chunks env0 "[]"] by blast
  then have "(tipo_oferta (pr_classification res), tipo_cliente (pr_classification res),
       sector (pr_classification res)) = classify (rfp_content (request0 None None))"
    using classify_labels [of "''hola mundo''" env0 "request0 None None" "[]" res] by blast
  then have "tipo_oferta (pr_classification res) = ''DX'' \<and>
      tipo_cliente (pr_classification res) = ''Privado'' \<and>
      sector (pr_classification res) = ''General''"
    using cl by (simp add: request0_def)
  then show ?thesis using first ok by blast
qed

subsection \<open>Order and identifiers of the windows\<close>

text \<open>
  C6. For every text and every configuration with \<open>overlap < window_size\<close> (so for every
  valid one: \<open>window_size > 0\<close>, \<open>0 \<le> overlap < window_size\<close>), segmentation succeeds, the
  windows come in strictly increasing order of start offset, and their identifiers are
  exactly 1, 2, ..., N in the order of emission, also when whitespace-only slices were
  skipped in between.
\<close>

theorem windows_ordered_ids_contiguous:
  assumes "overlap < window_size"
  shows "\<exists>chunks. segment text window_size overlap = Inr chunks \<and>
     sorted_wrt (<) (map c_start_pos chunks) \<and>
     map c_id chunks = [1..int (length chunks)]"
proof -
  let ?is = "range_up 0 (int (length text)) (window_size - overlap)"
  let ?chunks = "chunk_loop text window_size [] ?is"
  have seg: "segment text window_size overlap = Inr ?chunks"
    using assms by (rule segment_valid)
  have "map c_start_pos ?chunks =
      filter (\<lambda>i. strip (py_slice text i (i + window_size)) \<noteq> []) ?is"
    using chunk_loop_starts [of "text" window_size "[]" ?is] by simp
  then have ord: "sorted_wrt (<) (map c_start_pos ?chunks)"
    using range_up_strict [of 0 "int (length text)" "window_size - overlap"]
    by (simp add: sorted_wrt_filter)
  have "map c_id ?chunks = map (\<lambda>k. int k + 1) [0..<length ?chunks]"
    using chunk_loop_ids [of "[]" "text" window_size ?is] by simp
  then have ids: "map c_id ?chunks = [1..int (length ?chunks)]"
    by (simp add: ids_upto)
  show ?thesis using seg ord ids by blast
qed

theorem windows_ordered_ids_contiguous_witness:
  "(1 :: int) < 2 \<and>
   (\<exists>chunks. segment ''a   b'' 2 1 = Inr chunks \<and>
      map c_start_pos chunks = [0, 3, 4] \<and>
      sorted_wrt (<) (map c_start_pos chunks) \<and>
      map c_id chunks = [1..int (length chunks)] \<and>
      map c_id chunks = [1, 2, 3])"
proof -
  obtain chunks where c: "segment ''a   b'' 2 1 = Inr chunks"
      "sorted_wrt (<) (map c_start_pos chunks)"
      "map c_id chunks = [1..int (length chunks)]"
    using windows_ordered_ids_contiguous [of 1 2 "''a   b''"] by auto
  have "segment ''a   b'' 2 1 =
   Inr [\<lparr>c_id = 1, c_content = ''a '', c_size = 2, c_start_pos = 0, c_end_pos = 2\<rparr>,
        \<lparr>c_id = 2, c_content = '' b'', c_size = 2, c_start_pos = 3, c_end_pos = 5\<rparr>,
        \<lparr>c_id = 3, c_content = ''b'', c_size = 1, c_start_pos = 4, c_end_pos = 5\<rparr>]"
    by code_simp
  then have "chunks =
       [\<lparr>c_id = 1, c_content = ''a '', c_size = 2, c_start_pos = 0, c_end_pos = 2\<rparr>,
        \<lparr>c_id = 2, c_content = '' b'', c_size = 2, c_start_pos = 3, c_end_pos = 5\<rparr>,
        \<lparr>c_id = 3, c_content = ''b'', c_size = 1, c_start_pos = 4, c_end_pos = 5\<rparr>]"
    using c(1) by simp
  then have "map c_start_pos chunks = [0, 3, 4]" "map c_id chunks = [1, 2, 3]"
    by simp_all
  then show ?thesis using c by auto
qed

subsection \<open>Coverage and overlaps\<close>

text \<open>
  C3, as amended. For every text and every configuration with
  \<open>0 \<le> overlap < window_size\<close> in which no slice taken by the loop is empty or whitespace
  only: the windows start at 0, s, 2s, ... below the length of the text, where
  \<open>s = window_size - overlap\<close>; each is the slice from its start to
  \<open>min (start + window_size) (len text)\<close>; together they cover every position of the text;
  and a window shares with its successor exactly \<open>overlap\<close> positions when it has the
  full window size, and the \<open>len text - start\<close> positions of the successor otherwise
  (several trailing windows can be cut short by the end of the text, not only the last).
\<close>

theorem windows_cover_when_none_skipped:
  assumes ov: "0 \<le> overlap" and lt: "overlap < window_size"
    and nb: "no_blank_slice text window_size overlap"
  shows "\<exists>chunks. segment text window_size overlap = Inr chunks \<and>
     map c_start_pos chunks = range_up 0 (int (length text)) (window_size - overlap) \<and>
     list_all (well_formed text window_size) chunks \<and>
     covers chunks (int (length text)) \<and>
     overlaps_stride chunks window_size overlap (int (length text))"
proof -
  let ?n = "int (length text)"
  let ?is = "range_up 0 ?n (window_size - overlap)"
  let ?chunks = "chunk_loop text window_size [] ?is"
  have seg: "segment text window_size overlap = Inr ?chunks"
    using lt by (rule segment_valid)
  have "filter (\<lambda>i. strip (py_slice text i (i + window_size)) \<noteq> []) ?is = ?is"
    using nb by (simp add: no_blank_slice_def list_all_iff)
  then have starts: "map c_start_pos ?chunks = ?is"
    using chunk_loop_starts [of "text" window_size "[]" ?is] by simp
  have wf: "list_all (well_formed text window_size) ?chunks"
    using chunk_loop_shape [of "text" window_size "[]" ?is] by simp
  then have ends: "\<forall>c\<in>set ?chunks. c_end_pos c = min (c_start_pos c + window_size) ?n"
    by (simp add: list_all_iff well_formed_def)
  have cov: "covers ?chunks ?n"
    unfolding covers_iff
  proof (intro allI impI)
    fix p assume p: "0 \<le> p \<and> p < ?n"
    then obtain x where x: "x \<in> set ?is" "x \<le> p" "p < x + (window_size - overlap)"
      using range_up_covers [of "window_size - overlap" 0 p ?n] lt by auto
    then have "x \<in> set (map c_start_pos ?chunks)" using starts by simp
    then obtain c where c: "c \<in> set ?chunks" "c_start_pos c = x" by auto
    then have "c_end_pos c = min (x + window_size) ?n" using ends by simp
    then have "c_start_pos c \<le> p \<and> p < c_end_pos c" using c x p ov by simp
    then show "\<exists>c\<in>set ?chunks. c_start_pos c \<le> p \<and> p < c_end_pos c" using c by blast
  qed
  have str: "overlaps_stride ?chunks window_size overlap ?n"
    using overlaps_stride_range [of ?chunks 0 ?n window_size overlap] starts ends by simp
  show ?thesis using seg starts wf cov str by blast
qed

theorem windows_cover_when_none_skipped_witness:
  "no_blank_slice ''abcdefghijklmnopqrstuvw'' 10 5 \<and>
   (\<exists>chunks. segment ''abcdefghijklmnopqrstuvw'' 10 5 = Inr chunks \<and>
      map c_start_pos chunks = [0, 5, 10, 15, 20] \<and>
      covers chunks 23 \<and>
      overlaps_stride chunks 10 5 23)"
proof -
  have nb: "no_blank_slice ''abcdefghijklmnopqrstuvw'' 10 5" by code_simp
  have r: "range_up 0 23 5 = [0, 5, 10, 15, 20]" by code_simp
  have "\<exists>chunks. segment ''abcdefghijklmnopqrstuvw'' 10 5 = Inr chunks \<and>
     map c_start_pos chunks =
       range_up 0 (int (length ''abcdefghijklmnopqrstuvw'')) (10 - 5) \<and>
     list_all (well_formed ''abcdefghijklmnopqrstuvw'' 10) chunks \<and>
     covers chunks (int (length ''abcdefghijklmnopqrstuvw'')) \<and>
     overlaps_stride chunks 10 5 (int (length ''abcdefghijklmnopqrstuvw''))"
    using windows_cover_when_none_skipped [of 5 10 "''abcdefghijklmnopqrstuvw''"] nb
    by simp
  then show ?thesis using nb r by auto
qed

text \<open>
  The claim as worded fails in two ways. In \<open>''a   b''\<close> with window size 2 and overlap 1
  the slices at offsets 1 and 2 are blank and skipped, so position 2 lies in no window.
  In a 23-character text without whitespace, with window size 10 and overlap 8, the
  windows at 14, 16, 18, ... all end at 23, so consecutive windows before the final one
  share 7, 5, ... positions, not 8.
\<close>

theorem gap_after_skipped_slice_counterexample:
  "segment ''a   b'' 2 1 =
     Inr [\<lparr>c_id = 1, c_content = ''a '', c_size = 2, c_start_pos = 0, c_end_pos = 2\<rparr>,
          \<lparr>c_id = 2, c_content = '' b'', c_size = 2, c_start_pos = 3, c_end_pos = 5\<rparr>,
          \<lparr>c_id = 3, c_content = ''b'', c_size = 1, c_start_pos = 4, c_end_pos = 5\<rparr>] \<and>
   \<not> gap_free_exact_overlap ''a   b'' 2 1 \<and>
   \<not> gap_free_exact_overlap ''abcdefghijklmnopqrstuvw'' 10 8"
proof -
  have a: "segment ''a   b'' 2 1 =
     Inr [\<lparr>c_id = 1, c_content = ''a '', c_size = 2, c_start_pos = 0, c_end_pos = 2\<rparr>,
          \<lparr>c_id = 2, c_content = '' b'', c_size = 2, c_start_pos = 3, c_end_pos = 5\<rparr>,
          \<lparr>c_id = 3, c_content = ''b'', c_size = 1, c_start_pos = 4, c_end_pos = 5\<rparr>]"
    by code_simp
  have b: "\<not> gap_free_exact_overlap ''a   b'' 2 1" by code_simp
  have c: "\<not> gap_free_exact_overlap ''abcdefghijklmnopqrstuvw'' 10 8" by code_simp
  show ?thesis using a b c by blast
qed

subsection \<open>Texts no longer than one window\<close>

lemma segment_short:
  assumes len: "length text \<le> 2000" and ns: "strip text \<noteq> []"
  shows "segment text 2000 200 =
     Inr (\<lparr>c_id = 1, c_content = text, c_size = int (length text),
           c_start_pos = 0, c_end_pos = int (length text)\<rparr> #
          (if strip (drop 1800 text) = [] then []
           else [\<lparr>c_id = 2, c_content = drop 1800 text,
                   c_size = int (length text) - 1800,
                   c_start_pos = 1800, c_end_pos = int (length text)\<rparr>]))"
proof -
  let ?n = "int (length text)"
  have pos: "0 < ?n" using ns by (auto simp: strip_def)
  have seg: "segment text 2000 200 = Inr (chunk_loop text 2000 [] (range_up 0 ?n 1800))"
    using segment_valid [of 200 2000 "text"] by simp
  have s0: "py_slice text 0 2000 = text"
    using len by (simp add: py_slice_nonneg)
  have first: "chunk_body text 2000 [] 0 =
      [\<lparr>c_id = 1, c_content = text, c_size = ?n, c_start_pos = 0, c_end_pos = ?n\<rparr>]"
    using ns len by (simp add: chunk_body_def s0)
  show ?thesis
  proof (cases "?n \<le> 1800")
    case True
    then have r: "range_up 0 ?n 1800 = [0]"
      using pos range_up_Cons [of 1800 0 ?n] range_up_Nil [of 1800 1800 ?n] by simp
    have "drop 1800 text = []" using True by simp
    then have "strip (drop 1800 text) = []" by (simp add: strip_def)
    then show ?thesis using seg r first by simp
  next
    case False
    then have r: "range_up 0 ?n 1800 = [0, 1800]"
      using pos len range_up_Cons [of 1800 0 ?n] range_up_Cons [of 1800 1800 ?n]
        range_up_Nil [of 1800 3600 ?n] by simp
    have s1: "py_slice text 1800 3800 = drop 1800 text"
      using len py_slice_nonneg [of 1800 3800 "text"] by simp
    have second: "chunk_body text 2000
        [\<lparr>c_id = 1, c_content = text, c_size = ?n, c_start_pos = 0, c_end_pos = ?n\<rparr>] 1800 =
        \<lparr>c_id = 1, c_content = text, c_size = ?n, c_start_pos = 0, c_end_pos = ?n\<rparr> #
          (if strip (drop 1800 text) = [] then []
           else [\<lparr>c_id = 2, c_content = drop 1800 text, c_size = ?n - 1800,
                   c_start_pos = 1800, c_end_pos = ?n\<rparr>])"
      using len False by (simp add: chunk_body_def s1 Let_def)
    show ?thesis using seg r first second by simp
  qed
qed

text \<open>
  C1, as amended. For every text of at most 2000 characters that is not whitespace only,
  segmenting with window size 2000 and overlap 200 returns a first window that spans the
  whole text (identifier 1, start 0, end \<open>len text\<close>); it is the only window exactly when
  the text from offset 1800 on is empty or whitespace only, in particular whenever the
  text has at most 1800 characters; otherwise a second window follows, from 1800 to the
  end of the text.
\<close>

theorem short_text_windows:
  assumes "length text \<le> 2000" and "strip text \<noteq> []"
  shows "segment text 2000 200 =
     Inr (\<lparr>c_id = 1, c_content = text, c_size = int (length text),
           c_start_pos = 0, c_end_pos = int (length text)\<rparr> #
          (if strip (drop 1800 text) = [] then []
           else [\<lparr>c_id = 2, c_content = drop 1800 text,
                   c_size = int (length text) - 1800,
                   c_start_pos = 1800, c_end_pos = int (length text)\<rparr>])) \<and>
     (length text \<le> 1800 \<longrightarrow>
      segment text 2000 200 =
        Inr [\<lparr>c_id = 1, c_content = text, c_size = int (length text),
              c_start_pos = 0, c_end_pos = int (length text)\<rparr>])"
  using segment_short [OF assms] by (simp add: strip_def)

theorem short_text_windows_witness:
  "length ''hola mundo'' \<le> 2000 \<and> strip ''hola mundo'' \<noteq> [] \<and>
   segment ''hola mundo'' 2000 200 =
     Inr [\<lparr>c_id = 1, c_content = ''hola mundo'', c_size = 10,
           c_start_pos = 0, c_end_pos = 10\<rparr>]"
proof -
  have s: "strip ''hola mundo'' \<noteq> []" by code_simp
  have l: "length ''hola mundo'' \<le> 2000" by simp
  show ?thesis using short_text_windows [OF l s] s by (simp add: strip_def)
qed

text \<open>
  The claim as worded fails between 1801 and 2000 characters: the stride is 1800, so the
  loop runs a second time at offset 1800. A text of 1801 letters gives two windows.
\<close>

theorem short_text_two_windows_counterexample:
  "length (replicate 1801 (CHR ''a'')) \<le> 2000 \<and>
   strip (replicate 1801 (CHR ''a'')) \<noteq> [] \<and>
   segment (replicate 1801 (CHR ''a'')) 2000 200 =
     Inr [\<lparr>c_id = 1, c_content = replicate 1801 (CHR ''a''), c_size = 1801,
           c_start_pos = 0, c_end_pos = 1801\<rparr>,
          \<lparr>c_id = 2, c_content = ''a'', c_size = 1,
           c_start_pos = 1800, c_end_pos = 1801\<rparr>]"
proof -
  have sp: "\<not> isspace (CHR ''a'')" by (simp add: isspace_def)
  have s: "strip (replicate 1801 (CHR ''a'')) \<noteq> []"
    using sp by (simp add: strip_Nil_iff)
  have l: "length (replicate 1801 (CHR ''a'')) \<le> 2000" by simp
  have d: "drop 1800 (replicate 1801 (CHR ''a'')) = ''a''" by simp
  have "strip ''a'' \<noteq> []" using sp by (simp add: strip_Nil_iff)
  then show ?thesis using segment_short [OF l s] s d by simp
qed

end
